theory Spec2Isabelle
  imports Complex_Main "HOL-Library.Word"
begin

section \<open>Python values shared by the two gallery scripts\<close>

text \<open>
  The two scripts under \<^verbatim>\<open>docs/gallery/general\<close> are straight-line Python: every
  statement is a call into numpy, h5py, matplotlib, dandi or PyNWB. An exception raised by
  any call ends the script, so each call that can raise returns \<open>exn + 'a\<close> with
  \<open>Inl\<close> for the exception, and the scripts are sequences in that error monad.
\<close>

datatype exn =
  KeyError | IndexError | ValueError | TypeError | AttributeError | OSError | AssertionError

definition bnd :: "exn + 'a \<Rightarrow> ('a \<Rightarrow> exn + 'b) \<Rightarrow> exn + 'b" where
  "bnd m f = (case m of Inl e \<Rightarrow> Inl e | Inr x \<Rightarrow> f x)"

subsection \<open>numpy arrays\<close>

text \<open>
  An \<^verbatim>\<open>ndarray\<close> is its shape and its elements in row-major (C) order, which is how
  numpy and HDF5 both store it.
\<close>

record 'a ndarray =
  shape :: "nat list"
  flat :: "'a list"

definition well_formed :: "'a ndarray \<Rightarrow> bool" where
  "well_formed a = (length (flat a) = prod_list (shape a))"

text \<open>\<^verbatim>\<open>np.arange(n)\<close>: the integers \<open>0 .. n - 1\<close> as a one-dimensional array.\<close>

definition np_arange :: "nat \<Rightarrow> int ndarray" where
  "np_arange n = \<lparr>shape = [n], flat = map int [0..<n]\<rparr>"

text \<open>\<^verbatim>\<open>a.reshape(s)\<close>: the same elements under a new shape; numpy raises
  \<^verbatim>\<open>ValueError\<close> when the sizes differ.\<close>

definition reshape :: "'a ndarray \<Rightarrow> nat list \<Rightarrow> exn + 'a ndarray" where
  "reshape a s =
     (if prod_list s = length (flat a) then Inr \<lparr>shape = s, flat = flat a\<rparr>
      else Inl ValueError)"

text \<open>\<^verbatim>\<open>len(a)\<close>: the length of the first dimension; a 0-dimensional array has none.\<close>

definition len :: "'a ndarray \<Rightarrow> exn + nat" where
  "len a = (case shape a of [] \<Rightarrow> Inl TypeError | n # _ \<Rightarrow> Inr n)"

text \<open>\<^verbatim>\<open>a[i]\<close> for a non-negative integer \<open>i\<close>: the \<open>i\<close>-th slice along the
  first axis.\<close>

definition getitem :: "'a ndarray \<Rightarrow> nat \<Rightarrow> exn + 'a ndarray" where
  "getitem a i =
     (case shape a of
        [] \<Rightarrow> Inl IndexError
      | n # rest \<Rightarrow>
          if i < n
          then Inr \<lparr>shape = rest,
                    flat = take (prod_list rest) (drop (i * prod_list rest) (flat a))\<rparr>
          else Inl IndexError)"

text \<open>
  \<^verbatim>\<open>a[..., ::-1]\<close> (read_basics.py lines 198 and 317): a view of \<open>a\<close> with the last
  axis walked backwards. With \<open>n\<close> the length of the last axis, the element at flat
  position \<open>i\<close> of the result is the element of \<open>a\<close> in the same row of \<open>n\<close>
  elements, at the mirrored column. A 0-dimensional array has no axis to index and numpy
  raises \<^verbatim>\<open>IndexError\<close>.
\<close>

definition reverse_last_axis :: "'a ndarray \<Rightarrow> exn + 'a ndarray" where
  "reverse_last_axis a =
     (case shape a of
        [] \<Rightarrow> Inl IndexError
      | _ # _ \<Rightarrow>
          (let n = last (shape a)
           in Inr \<lparr>shape = shape a,
                    flat = map (\<lambda>i. flat a ! ((i div n) * n + (n - 1 - i mod n)))
                             [0..<length (flat a)]\<rparr>))"

subsection \<open>Spike times around a stimulus onset (read_basics.py lines 248-264)\<close>

definition before :: real where
  "before = 1.0"

definition after :: real where
  "after = 3.0"

text \<open>\<^verbatim>\<open>a[mask]\<close> with a boolean array of the same length: the elements of \<open>a\<close>
  where the mask is true, in order.\<close>

definition boolean_mask :: "'a list \<Rightarrow> bool list \<Rightarrow> 'a list" where
  "boolean_mask a keep = map fst (filter snd (zip a keep))"

text \<open>The body of the inner loop: subtract the onset from every spike time, then keep the
  differences inside the window.\<close>

definition aligned_spikes :: "real list \<Rightarrow> real \<Rightarrow> real list" where
  "aligned_spikes unit_spike_times time =
     (let aligned = map (\<lambda>s. s - time) unit_spike_times
      in boolean_mask aligned
           (map2 (\<and>) (map (\<lambda>t. - before < t) aligned) (map (\<lambda>t. t < after) aligned)))"

text \<open>The inner loop: \<^verbatim>\<open>trial_spikes\<close> starts empty and gets one array per onset.\<close>

definition trial_spikes :: "real list \<Rightarrow> real list \<Rightarrow> real list list" where
  "trial_spikes unit_spike_times stim_on_times =
     foldl (\<lambda>acc time. acc @ [aligned_spikes unit_spike_times time]) [] stim_on_times"


subsection \<open>More of numpy and h5py indexing used by read_basics.py\<close>

text \<open>\<^verbatim>\<open>d[key]\<close> on a dictionary kept in insertion order.\<close>

definition dict_getitem :: "(string \<times> 'v) list \<Rightarrow> string \<Rightarrow> exn + 'v" where
  "dict_getitem d k = (case map_of d k of None \<Rightarrow> Inl KeyError | Some v \<Rightarrow> Inr v)"

text \<open>\<^verbatim>\<open>xs[i]\<close> on a column of a table, for a non-negative \<open>i\<close>.\<close>

definition list_getitem :: "'a list \<Rightarrow> nat \<Rightarrow> exn + 'a" where
  "list_getitem xs i = (if i < length xs then Inr (xs ! i) else Inl IndexError)"

text \<open>\<^verbatim>\<open>np.where(ts == time)\<close>: the positions where the timestamp equals \<open>time\<close>,
  increasing.\<close>

definition np_where_eq :: "real list \<Rightarrow> real \<Rightarrow> nat list" where
  "np_where_eq ts time = filter (\<lambda>i. ts ! i = time) [0..<length ts]"

text \<open>\<^verbatim>\<open>dataset[(idx,)]\<close>: the slices at the given positions of the first axis.\<close>

definition take_frames :: "'a ndarray \<Rightarrow> nat list \<Rightarrow> exn + 'a ndarray" where
  "take_frames a idx =
     (case shape a of
        [] \<Rightarrow> Inl IndexError
      | n # rest \<Rightarrow>
          if list_all (\<lambda>i. i < n) idx
          then Inr \<lparr>shape = length idx # rest,
                    flat = concat (map (\<lambda>i. take (prod_list rest)
                                             (drop (i * prod_list rest) (flat a))) idx)\<rparr>
          else Inl IndexError)"

text \<open>\<^verbatim>\<open>np.squeeze(a)\<close>: the axes of length one are dropped.\<close>

definition np_squeeze :: "'a ndarray \<Rightarrow> 'a ndarray" where
  "np_squeeze a = \<lparr>shape = filter (\<lambda>d. d \<noteq> 1) (shape a), flat = flat a\<rparr>"

text \<open>\<^verbatim>\<open>np.hstack(arrays)\<close> of one-dimensional arrays; numpy raises
  \<^verbatim>\<open>ValueError\<close> on an empty sequence.\<close>

definition np_hstack :: "'a list list \<Rightarrow> exn + 'a list" where
  "np_hstack arrays = (if arrays = [] then Inl ValueError else Inr (concat arrays))"

text \<open>\<^verbatim>\<open>np.all(a == b)\<close> with \<open>b\<close> a pandas column: pandas refuses to compare
  columns of different lengths.\<close>

definition np_all_eq :: "real list \<Rightarrow> real list \<Rightarrow> exn + bool" where
  "np_all_eq a b = (if length a = length b then Inr (a = b) else Inl ValueError)"

text \<open>The \<^verbatim>\<open>assert\<close> statement.\<close>

definition py_assert :: "bool \<Rightarrow> exn + unit" where
  "py_assert c = (if c then Inr () else Inl AssertionError)"

subsection \<open>PyNWB containers\<close>

text \<open>
  Modelled from the spec: the classes \<^verbatim>\<open>TimeSeries\<close> and \<^verbatim>\<open>NWBFile\<close> and the
  methods \<^verbatim>\<open>add_acquisition\<close> and \<^verbatim>\<open>get_acquisition\<close> belong to PyNWB and are not
  among the gallery sources. The spec's data model: a session-level container object holding
  named child records (time-series-like objects with a data array and a timestamp array),
  grouped into categories (acquisition, stimulus) and a tabular trials/units structure.
  The fields are the keyword arguments the scripts pass to the constructors and the
  attributes they read. A child record is found by its name, so a category refuses a second
  record of a name it holds, and a name it does not hold is a missing key.
\<close>

type_synonym datetime = "nat \<times> nat \<times> nat \<times> nat \<times> nat \<times> nat"

definition datetime :: "nat \<Rightarrow> nat \<Rightarrow> nat \<Rightarrow> nat \<Rightarrow> nat \<Rightarrow> nat \<Rightarrow> datetime" where
  "datetime y mo d h mi s = (y, mo, d, h, mi, s)"

record ('d, 't) TimeSeries =
  name :: string
  source :: string
  data :: 'd
  unit :: string
  timestamps :: 't
  container_source :: "string option"

record trial =
  stim_on_time :: real
  category_name :: string

record 'c NWBFile =
  nwb_source :: string
  session_description :: string
  nwb_identifier :: string
  session_start_time :: datetime
  file_create_date :: datetime
  acquisition :: "(string \<times> 'c) list"
  stimulus :: "(string \<times> 'c) list"
  units :: "real list list option"
  trials :: "trial list option"

text \<open>Modelled from the spec: the constructor \<^verbatim>\<open>TimeSeries(name=, source=, data=, unit=,
  timestamps=)\<close> of PyNWB. A record made by the script was read from no file.\<close>

definition new_TimeSeries ::
  "string \<Rightarrow> string \<Rightarrow> 'd \<Rightarrow> string \<Rightarrow> 't \<Rightarrow> ('d, 't) TimeSeries" where
  "new_TimeSeries n src d u t =
     \<lparr>name = n, source = src, data = d, unit = u, timestamps = t, container_source = None\<rparr>"

text \<open>Modelled from the spec: the constructor \<^verbatim>\<open>NWBFile(source=, session_description=,
  identifier=, session_start_time=, file_create_date=)\<close> of PyNWB. A fresh container holds
  no record and no table.\<close>

definition new_NWBFile ::
  "string \<Rightarrow> string \<Rightarrow> string \<Rightarrow> datetime \<Rightarrow> datetime \<Rightarrow> 'c NWBFile" where
  "new_NWBFile src descr ident start created =
     \<lparr>nwb_source = src, session_description = descr, nwb_identifier = ident,
      session_start_time = start, file_create_date = created,
      acquisition = [], stimulus = [], units = None, trials = None\<rparr>"

text \<open>Modelled from the spec: \<^verbatim>\<open>NWBFile.add_acquisition\<close> of PyNWB. The record becomes
  a child of the acquisition category under its name; the other category is not
  touched.\<close>

definition add_acquisition ::
  "('d, 't) TimeSeries NWBFile \<Rightarrow> ('d, 't) TimeSeries
     \<Rightarrow> exn + ('d, 't) TimeSeries NWBFile" where
  "add_acquisition nwbfile ts =
     (case map_of (acquisition nwbfile) (name ts) of
        Some _ \<Rightarrow> Inl ValueError
      | None \<Rightarrow> Inr (nwbfile\<lparr>acquisition := acquisition nwbfile @ [(name ts, ts)]\<rparr>))"

text \<open>Modelled from the spec: \<^verbatim>\<open>NWBFile.get_acquisition\<close> of PyNWB, the child of that
  name in the acquisition category.\<close>

definition get_acquisition :: "'c NWBFile \<Rightarrow> string \<Rightarrow> exn + 'c" where
  "get_acquisition nwbfile n = dict_getitem (acquisition nwbfile) n"

subsection \<open>I/O handles\<close>

text \<open>
  Modelled from the spec: the class \<^verbatim>\<open>NWBHDF5IO\<close> of PyNWB, as far as opening and
  closing go (file handles are opened and explicitly closed).
  Every \<^verbatim>\<open>NWBHDF5IO(...)\<close> call makes a new handle; the table keeps every handle ever
  made, in order, and the script's variable holds its position. The mode is the argument
  the script passes, \<open>None\<close> when it passes none. \<^verbatim>\<open>close()\<close> marks the handle closed.
\<close>

type_synonym addr = nat

record NWBHDF5IO =
  path :: string
  mode :: "string option"
  manager :: "addr option"
  is_open :: bool

definition open_io ::
  "string \<Rightarrow> string option \<Rightarrow> addr option \<Rightarrow> NWBHDF5IO list \<Rightarrow> nat \<times> NWBHDF5IO list" where
  "open_io p m mgr tbl =
     (length tbl, tbl @ [\<lparr>path = p, mode = m, manager = mgr, is_open = True\<rparr>])"

definition close_io :: "nat \<Rightarrow> NWBHDF5IO list \<Rightarrow> NWBHDF5IO list" where
  "close_io io tbl = (if io < length tbl then tbl[io := (tbl ! io)\<lparr>is_open := False\<rparr>] else tbl)"

text \<open>The handles that were opened and never closed.\<close>

definition never_closed :: "NWBHDF5IO list \<Rightarrow> NWBHDF5IO list" where
  "never_closed tbl = filter is_open tbl"

section \<open>read_basics.py\<close>

text \<open>
  The calls whose results come from outside the process are parameters of the script: the
  DANDI client's answer (lines 103-105), the NWB file streamed from the S3 URL (lines
  122-123) and the matplotlib calls. Each may raise, whatever the library raises. The
  file's lazily read datasets are given by their contents: images are arrays of unsigned
  bytes, times are float64 values, modelled as reals (the script only subtracts and
  compares them).
\<close>

type_synonym OpticalSeries = "(8 word ndarray, real list) TimeSeries"

record lib =
  get_content_url :: "exn + string"
  ros3_read :: "string \<Rightarrow> exn + OpticalSeries NWBFile"
  imshow :: "8 word ndarray \<Rightarrow> exn + unit"
  eventplot :: "nat \<Rightarrow> real list list \<Rightarrow> exn + unit"
  hist :: "real list \<Rightarrow> exn + unit"

definition frame_index :: nat where
  "frame_index = 31"

text \<open>Lines 254-274: the loop over the first three units. \<^verbatim>\<open>units["spike_times"][unit]\<close>
  raises when the table has no such row. \<open>eventplot\<close> stands for the figure of the
  unit up to the raster (lines 265-271), \<open>hist\<close> for the histogram of the stacked
  spikes (lines 273-274).\<close>

fun units_loop ::
  "lib \<Rightarrow> real list list \<Rightarrow> real list \<Rightarrow> nat list \<Rightarrow> exn + real list list list" where
  "units_loop l spike_times stim_on_times [] = Inr []"
| "units_loop l spike_times stim_on_times (u # us) =
     bnd (list_getitem spike_times u) (\<lambda>unit_spike_times.
     let spikes = trial_spikes unit_spike_times stim_on_times in
     bnd (eventplot l u spikes) (\<lambda>_.
     bnd (np_hstack spikes) (\<lambda>stacked.
     bnd (hist l stacked) (\<lambda>_.
     bnd (units_loop l spike_times stim_on_times us) (\<lambda>more.
     Inr (spikes # more))))))"

text \<open>Lines 310-319: the loop over the first three landscape onsets.\<close>

fun landscapes_loop :: "lib \<Rightarrow> OpticalSeries \<Rightarrow> real list \<Rightarrow> exn + 8 word ndarray list" where
  "landscapes_loop l sp [] = Inr []"
| "landscapes_loop l sp (time # later) =
     bnd (take_frames (data sp) (np_where_eq (timestamps sp) time)) (\<lambda>frames.
     bnd (reverse_last_axis (np_squeeze frames)) (\<lambda>img.
     bnd (imshow l img) (\<lambda>_.
     bnd (landscapes_loop l sp later) (\<lambda>more.
     Inr (img # more)))))"

text \<open>An attribute that is \<^verbatim>\<open>None\<close> has no methods: calling \<^verbatim>\<open>to_dataframe\<close> on it
  raises.\<close>

definition to_dataframe :: "'a option \<Rightarrow> exn + 'a" where
  "to_dataframe t = (case t of None \<Rightarrow> Inl AttributeError | Some rows \<Rightarrow> Inr rows)"

record outputs =
  s3_path :: string
  image :: "8 word ndarray"
  rasters :: "real list list list"
  landscapes :: "8 word ndarray list"

definition read_basics :: "lib \<Rightarrow> NWBHDF5IO list \<Rightarrow> exn + (outputs \<times> NWBHDF5IO list)" where
  "read_basics l tbl0 =
     bnd (get_content_url l) (\<lambda>s3.
     let (io, tbl) = open_io s3 (Some ''r'') None tbl0 in
     bnd (ros3_read l s3) (\<lambda>nwbfile.
     bnd (dict_getitem (stimulus nwbfile) ''StimulusPresentation'') (\<lambda>stimulus_presentation.
     bnd (getitem (data stimulus_presentation) frame_index) (\<lambda>frame.
     bnd (reverse_last_axis frame) (\<lambda>img.
     bnd (imshow l img) (\<lambda>_.
     bnd (to_dataframe (units nwbfile)) (\<lambda>spike_times.
     bnd (list_getitem spike_times 0) (\<lambda>_.
     let stim_on_times = timestamps stimulus_presentation in
     bnd (units_loop l spike_times stim_on_times [0, 1, 2]) (\<lambda>rs.
     bnd (to_dataframe (trials nwbfile)) (\<lambda>trials_df.
     bnd (np_all_eq (timestamps stimulus_presentation) (map stim_on_time trials_df)) (\<lambda>same.
     bnd (py_assert same) (\<lambda>_.
     let stim_on_times_landscapes =
           map stim_on_time (filter (\<lambda>r. category_name r = ''landscapes'') trials_df) in
     bnd (landscapes_loop l stimulus_presentation (take 3 stim_on_times_landscapes)) (\<lambda>ls.
     Inr (\<lparr>s3_path = s3, image = img, rasters = rs, landscapes = ls\<rparr>, tbl))))))))))))))"

section \<open>linking_data.py\<close>

subsection \<open>Python objects and container files\<close>

text \<open>
  The script passes one numpy array to several constructors and one manager to several
  handles. Python passes references, so arrays and managers live in a heap and a
  \<^verbatim>\<open>TimeSeries\<close> holds the address it was given. What a \<^verbatim>\<open>data=\<close> argument can be in
  this script: a numpy array, a dataset of an open HDF5 file (what \<^verbatim>\<open>timeseries_1.data\<close>
  is after a read: the file, the category, the record and the field it names), or either
  wrapped in \<^verbatim>\<open>H5DataIO\<close> with its \<^verbatim>\<open>link_data\<close> flag.
\<close>

datatype group = Acquisition | Stimulus

datatype field = Data | Timestamps

datatype dataset_ref =
    Array addr
  | H5Dataset string group string field
  | H5DataIO dataset_ref bool

type_synonym TimeSeries_obj = "(dataset_ref, dataset_ref) TimeSeries"

text \<open>
  Modelled from the spec: \<^verbatim>\<open>NWBHDF5IO.write\<close>, \<^verbatim>\<open>NWBHDF5IO.read\<close> and
  \<^verbatim>\<open>get_manager\<close> belong to PyNWB and are not among the gallery sources. The spec's
  glossary: a container file is a hierarchical binary file holding named nested records and
  arrays; an external link is a reference from one container file to a record stored in
  another container file, resolved at read time. The gallery text says when a link is
  written: a dataset of another file is linked rather than copied under
  \<^verbatim>\<open>link_data=True\<close> (lines 155-180, the wrapper's flag taking precedence over the
  default of the call), and a container that was read from another file through the same
  manager is written as an external link (lines 196-232).
\<close>

datatype stored_dataset =
    Stored "int ndarray"
  | ExternalDataset string group string field

datatype stored_record =
    StoredTimeSeries string stored_dataset string stored_dataset
  | ExternalLink string group string

type_synonym h5file = "stored_record NWBFile"

record world =
  files :: "string \<rightharpoonup> h5file"
  heap :: "addr \<Rightarrow> int ndarray"
  managers :: "addr \<Rightarrow> (string \<times> group \<times> string) list"
  handles :: "NWBHDF5IO list"
  next_addr :: addr

definition children :: "group \<Rightarrow> 'c NWBFile \<Rightarrow> (string \<times> 'c) list" where
  "children g f = (case g of Acquisition \<Rightarrow> acquisition f | Stimulus \<Rightarrow> stimulus f)"

text \<open>Modelled from the spec: resolving an external link, part of PyNWB's HDF5 backend. A
  link names a record of another file, which may again be a link; HDF5 follows at most 16
  links when it resolves a name.\<close>

definition nlinks :: nat where
  "nlinks = 16"

fun resolve_record ::
  "nat \<Rightarrow> (string \<rightharpoonup> h5file) \<Rightarrow> string \<Rightarrow> group \<Rightarrow> string
     \<Rightarrow> exn + (string \<times> group \<times> string) \<times> (string \<times> stored_dataset \<times> string \<times> stored_dataset)" where
  "resolve_record 0 fs f g n = Inl OSError"
| "resolve_record (Suc k) fs f g n =
     (case fs f of
        None \<Rightarrow> Inl OSError
      | Some file \<Rightarrow>
          (case map_of (children g file) n of
             None \<Rightarrow> Inl KeyError
           | Some (ExternalLink f' g' n') \<Rightarrow> resolve_record k fs f' g' n'
           | Some (StoredTimeSeries src d u t) \<Rightarrow> Inr ((f, g, n), (src, d, u, t))))"

fun read_dataset ::
  "nat \<Rightarrow> (string \<rightharpoonup> h5file) \<Rightarrow> string \<Rightarrow> group \<Rightarrow> string \<Rightarrow> field \<Rightarrow> exn + int ndarray" where
  "read_dataset 0 fs f g n fld = Inl OSError"
| "read_dataset (Suc k) fs f g n fld =
     bnd (resolve_record (Suc k) fs f g n) (\<lambda>(loc, (src, d, u, t)).
     case (case fld of Data \<Rightarrow> d | Timestamps \<Rightarrow> t) of
       Stored arr \<Rightarrow> Inr arr
     | ExternalDataset f' g' n' fld' \<Rightarrow> read_dataset k fs f' g' n' fld')"

text \<open>The contents behind a \<^verbatim>\<open>data\<close> or \<^verbatim>\<open>timestamps\<close> attribute (\<^verbatim>\<open>x[:]\<close>):
  the array at the address, or the dataset the file holds under that name.\<close>

fun load :: "world \<Rightarrow> dataset_ref \<Rightarrow> exn + int ndarray" where
  "load w (Array a) = Inr (heap w a)"
| "load w (H5Dataset f g n fld) = read_dataset nlinks (files w) f g n fld"
| "load w (H5DataIO d b) = load w d"

text \<open>Modelled from the spec: writing one dataset, part of \<^verbatim>\<open>NWBHDF5IO.write\<close>. An
  array is stored; a dataset of another file is linked or copied.\<close>

fun store_dataset :: "world \<Rightarrow> bool \<Rightarrow> dataset_ref \<Rightarrow> exn + stored_dataset" where
  "store_dataset w link (Array a) = Inr (Stored (heap w a))"
| "store_dataset w link (H5Dataset f g n fld) =
     (if link then Inr (ExternalDataset f g n fld)
      else bnd (read_dataset nlinks (files w) f g n fld) (\<lambda>arr. Inr (Stored arr)))"
| "store_dataset w link (H5DataIO d b) = store_dataset w b d"

text \<open>Modelled from the spec: writing one record through handle \<open>h\<close>, part of
  \<^verbatim>\<open>NWBHDF5IO.write\<close>. A record the handle's manager has built from another file is
  written as an external link to where it is stored.\<close>

definition built_elsewhere ::
  "world \<Rightarrow> NWBHDF5IO \<Rightarrow> TimeSeries_obj \<Rightarrow> (string \<times> group \<times> string) option" where
  "built_elsewhere w h ts =
     (case manager h of
        None \<Rightarrow> None
      | Some m \<Rightarrow>
          find (\<lambda>(f, g, n). container_source ts = Some f \<and> n = name ts \<and> f \<noteq> path h)
               (managers w m))"

definition store_record :: "world \<Rightarrow> NWBHDF5IO \<Rightarrow> bool \<Rightarrow> TimeSeries_obj \<Rightarrow> exn + stored_record" where
  "store_record w h link ts =
     (case built_elsewhere w h ts of
        Some (f, g, n) \<Rightarrow> Inr (ExternalLink f g n)
      | None \<Rightarrow>
          bnd (store_dataset w link (data ts)) (\<lambda>d.
          bnd (store_dataset w link (timestamps ts)) (\<lambda>t.
          Inr (StoredTimeSeries (source ts) d (unit ts) t))))"

fun store_all ::
  "world \<Rightarrow> NWBHDF5IO \<Rightarrow> bool \<Rightarrow> (string \<times> TimeSeries_obj) list
     \<Rightarrow> exn + (string \<times> stored_record) list" where
  "store_all w h link [] = Inr []"
| "store_all w h link ((n, ts) # rest) =
     bnd (store_record w h link ts) (\<lambda>r.
     bnd (store_all w h link rest) (\<lambda>more.
     Inr ((n, r) # more)))"

text \<open>Modelled from the spec: reading one record of file \<open>f\<close>, part of
  \<^verbatim>\<open>NWBHDF5IO.read\<close>. The record's datasets stay in the file and are referred to; an
  external link is resolved to the record it names.\<close>

definition opened_at :: "string \<times> group \<times> string \<Rightarrow> string \<Rightarrow> string \<Rightarrow> TimeSeries_obj" where
  "opened_at loc src u =
     (case loc of (f, g, n) \<Rightarrow>
        \<lparr>name = n, source = src, data = H5Dataset f g n Data, unit = u,
         timestamps = H5Dataset f g n Timestamps, container_source = Some f\<rparr>)"

definition open_record ::
  "(string \<rightharpoonup> h5file) \<Rightarrow> string \<times> group \<times> string \<Rightarrow> stored_record \<Rightarrow> exn + TimeSeries_obj" where
  "open_record fs loc r =
     (case r of
        StoredTimeSeries src d u t \<Rightarrow> Inr (opened_at loc src u)
      | ExternalLink f' g' n' \<Rightarrow>
          bnd (resolve_record nlinks fs f' g' n') (\<lambda>(loc', (src, d, u, t)).
          Inr (opened_at loc' src u)))"

fun open_all ::
  "(string \<rightharpoonup> h5file) \<Rightarrow> string \<Rightarrow> group \<Rightarrow> (string \<times> stored_record) list
     \<Rightarrow> exn + (string \<times> TimeSeries_obj) list" where
  "open_all fs f g [] = Inr []"
| "open_all fs f g ((n, r) # rest) =
     bnd (open_record fs (f, g, n) r) (\<lambda>ts.
     bnd (open_all fs f g rest) (\<lambda>more.
     Inr ((n, ts) # more)))"

text \<open>Where a record that was read is stored: the file, category and name its datasets
  refer to.\<close>

definition location :: "TimeSeries_obj \<Rightarrow> (string \<times> group \<times> string) list" where
  "location ts = (case data ts of H5Dataset f g n fld \<Rightarrow> [(f, g, n)] | _ \<Rightarrow> [])"

subsection \<open>The calls of the script, as steps on the world\<close>

type_synonym 'a prog = "world \<Rightarrow> exn + ('a \<times> world)"

definition sbnd :: "'a prog \<Rightarrow> ('a \<Rightarrow> 'b prog) \<Rightarrow> 'b prog" where
  "sbnd m f w = (case m w of Inl e \<Rightarrow> Inl e | Inr (x, w') \<Rightarrow> f x w')"

definition lift :: "exn + 'a \<Rightarrow> 'a prog" where
  "lift r w = (case r of Inl e \<Rightarrow> Inl e | Inr x \<Rightarrow> Inr (x, w))"

text \<open>A numpy array returned to the script is a new object.\<close>

definition new_array :: "int ndarray \<Rightarrow> addr prog" where
  "new_array arr w =
     Inr (next_addr w,
          w\<lparr>heap := (heap w)(next_addr w := arr), next_addr := Suc (next_addr w)\<rparr>)"

text \<open>Modelled from the spec: \<^verbatim>\<open>get_manager()\<close> of PyNWB returns a new manager that has
  built nothing yet.\<close>

definition get_manager :: "addr prog" where
  "get_manager w =
     Inr (next_addr w,
          w\<lparr>managers := (managers w)(next_addr w := []), next_addr := Suc (next_addr w)\<rparr>)"

text \<open>The constructor and \<^verbatim>\<open>close()\<close> of a handle, on the world's table of handles.\<close>

definition new_NWBHDF5IO :: "string \<Rightarrow> string option \<Rightarrow> addr option \<Rightarrow> nat prog" where
  "new_NWBHDF5IO p m mgr w =
     (case open_io p m mgr (handles w) of (io, tbl) \<Rightarrow> Inr (io, w\<lparr>handles := tbl\<rparr>))"

definition io_close :: "nat \<Rightarrow> unit prog" where
  "io_close io w = Inr ((), w\<lparr>handles := close_io io (handles w)\<rparr>)"

text \<open>Modelled from the spec: \<^verbatim>\<open>NWBHDF5IO.write(nwbfile, link_data=...)\<close> of PyNWB. The
  file at the handle's path becomes the stored form of the container; no other file
  changes. A call that passes no \<^verbatim>\<open>link_data\<close> links.\<close>

definition io_write :: "nat \<Rightarrow> TimeSeries_obj NWBFile \<Rightarrow> bool option \<Rightarrow> unit prog" where
  "io_write io nwbfile link_data w =
     (if io < length (handles w) \<and> is_open (handles w ! io)
      then
        (let h = handles w ! io; link = (link_data \<noteq> Some False) in
         bnd (store_all w h link (acquisition nwbfile)) (\<lambda>acq.
         bnd (store_all w h link (stimulus nwbfile)) (\<lambda>stim.
         Inr ((), w\<lparr>files := (files w)(path h \<mapsto>
                \<lparr>nwb_source = nwb_source nwbfile,
                 session_description = session_description nwbfile,
                 nwb_identifier = nwb_identifier nwbfile,
                 session_start_time = session_start_time nwbfile,
                 file_create_date = file_create_date nwbfile,
                 acquisition = acq, stimulus = stim,
                 units = units nwbfile, trials = trials nwbfile\<rparr>)\<rparr>))))
      else Inl ValueError)"

text \<open>Modelled from the spec: \<^verbatim>\<open>NWBHDF5IO.read()\<close> of PyNWB. The result is the
  container stored at the handle's path, with its records opened; the handle's manager
  remembers where each of them is stored.\<close>

definition io_read :: "nat \<Rightarrow> TimeSeries_obj NWBFile prog" where
  "io_read io w =
     (if io < length (handles w) \<and> is_open (handles w ! io)
      then
        (let h = handles w ! io in
         case files w (path h) of
           None \<Rightarrow> Inl OSError
         | Some file \<Rightarrow>
             bnd (open_all (files w) (path h) Acquisition (acquisition file)) (\<lambda>acq.
             bnd (open_all (files w) (path h) Stimulus (stimulus file)) (\<lambda>stim.
             Inr (\<lparr>nwb_source = nwb_source file,
                   session_description = session_description file,
                   nwb_identifier = nwb_identifier file,
                   session_start_time = session_start_time file,
                   file_create_date = file_create_date file,
                   acquisition = acq, stimulus = stim,
                   units = units file, trials = trials file\<rparr>,
                  (case manager h of
                     None \<Rightarrow> w
                   | Some m \<Rightarrow>
                       w\<lparr>managers := (managers w)
                           (m := managers w m @ concat (map (location \<circ> snd) (acq @ stim)))\<rparr>)))))
      else Inl ValueError)"

text \<open>\<^verbatim>\<open>a.flat[i] = v\<close> on the numpy array at address \<open>a\<close>: assignment in
  place. No statement of the script does this; it is what "mutating" an array means.\<close>

definition array_setitem :: "addr \<Rightarrow> nat \<Rightarrow> int \<Rightarrow> unit prog" where
  "array_setitem a i v w =
     (if i < length (flat (heap w a))
      then Inr ((), w\<lparr>heap := (heap w)(a := (heap w a)\<lparr>flat := (flat (heap w a))[i := v]\<rparr>)\<rparr>)
      else Inl IndexError)"

subsection \<open>The script\<close>

text \<open>
  The statements of linking_data.py in order (lines 65-247). A Python name that is bound
  again (\<^verbatim>\<open>io\<close>, \<^verbatim>\<open>io1\<close>, \<^verbatim>\<open>nwbfile1\<close>, \<^verbatim>\<open>nwbfile2\<close>, \<^verbatim>\<open>timeseries_1\<close>)
  is bound again here. The result holds the script's variables as they are at its end,
  with the four constructed \<^verbatim>\<open>TimeSeries\<close> objects.
\<close>

record globals =
  g_data :: addr
  g_timestamps :: addr
  test_ts1 :: TimeSeries_obj
  test_ts2 :: TimeSeries_obj
  test_ts4 :: TimeSeries_obj
  test_ts5 :: TimeSeries_obj
  timeseries_1_data :: dataset_ref
  g_manager :: addr
  timeseries_1 :: TimeSeries_obj
  timeseries_2 :: TimeSeries_obj
  nwbfile1 :: "TimeSeries_obj NWBFile"
  nwbfile2 :: "TimeSeries_obj NWBFile"
  nwbfile3 :: "TimeSeries_obj NWBFile"
  nwbfile4 :: "TimeSeries_obj NWBFile"
  g_io :: nat
  g_io1 :: nat
  g_io2 :: nat
  g_io3 :: nat
  g_io4 :: nat

definition filename1 :: string where
  "filename1 = ''external1_example.nwb''"

definition filename2 :: string where
  "filename2 = ''external2_example.nwb''"

definition filename3 :: string where
  "filename3 = ''external_linkcontainer_example.nwb''"

definition filename4 :: string where
  "filename4 = ''external_linkdataset_example.nwb''"

definition start_time :: datetime where
  "start_time = datetime 2017 4 3 11 0 0"

definition create_date :: datetime where
  "create_date = datetime 2017 4 15 12 0 0"

definition linking_data :: "globals prog" where
  "linking_data =
     sbnd (lift (reshape (np_arange 1000) [100, 10])) (\<lambda>reshaped.
     sbnd (new_array reshaped) (\<lambda>data'.
     sbnd (new_array (np_arange 100)) (\<lambda>timestamps'.
     let nwbfile1 = new_NWBFile ''PyNWB tutorial'' ''demonstrate external files'' ''NWBE1''
                      start_time create_date;
         test_ts1 = new_TimeSeries ''test_timeseries1'' ''PyNWB tutorial'' (Array data')
                      ''SIunit'' (Array timestamps') in
     sbnd (lift (add_acquisition nwbfile1 test_ts1)) (\<lambda>nwbfile1.
     sbnd (new_NWBHDF5IO filename1 (Some ''w'') None) (\<lambda>io.
     sbnd (io_write io nwbfile1 None) (\<lambda>_.
     sbnd (io_close io) (\<lambda>_.
     let nwbfile2 = new_NWBFile ''PyNWB tutorial'' ''demonstrate external files'' ''NWBE2''
                      start_time create_date;
         test_ts2 = new_TimeSeries ''test_timeseries2'' ''PyNWB tutorial'' (Array data')
                      ''SIunit'' (Array timestamps') in
     sbnd (lift (add_acquisition nwbfile2 test_ts2)) (\<lambda>nwbfile2.
     sbnd (new_NWBHDF5IO filename2 (Some ''w'') None) (\<lambda>io.
     sbnd (io_write io nwbfile2 None) (\<lambda>_.
     sbnd (io_close io) (\<lambda>_.
     let nwbfile4 = new_NWBFile ''PyNWB tutorial'' ''demonstrate external files'' ''NWBE4''
                      start_time create_date in
     sbnd (new_NWBHDF5IO filename1 None None) (\<lambda>io1.
     sbnd (io_read io1) (\<lambda>nwbfile1.
     sbnd (lift (get_acquisition nwbfile1 ''test_timeseries1'')) (\<lambda>timeseries_1.
     let timeseries_1_data = data timeseries_1;
         test_ts4 = new_TimeSeries ''test_timeseries4'' ''PyNWB tutorial'' timeseries_1_data
                      ''SIunit'' (Array timestamps') in
     sbnd (lift (add_acquisition nwbfile4 test_ts4)) (\<lambda>nwbfile4.
     let test_ts5 = new_TimeSeries ''test_timeseries5'' ''PyNWB tutorial''
                      (H5DataIO timeseries_1_data True) ''SIunit'' (Array timestamps') in
     sbnd (lift (add_acquisition nwbfile4 test_ts5)) (\<lambda>nwbfile4.
     sbnd (new_NWBHDF5IO filename4 (Some ''w'') None) (\<lambda>io4.
     sbnd (io_write io4 nwbfile4 (Some True)) (\<lambda>_.
     sbnd (io_close io4) (\<lambda>_.
     sbnd get_manager (\<lambda>manager.
     sbnd (new_NWBHDF5IO filename1 None (Some manager)) (\<lambda>io1.
     sbnd (io_read io1) (\<lambda>nwbfile1.
     sbnd (lift (get_acquisition nwbfile1 ''test_timeseries1'')) (\<lambda>timeseries_1.
     sbnd (new_NWBHDF5IO filename2 None (Some manager)) (\<lambda>io2.
     sbnd (io_read io2) (\<lambda>nwbfile2.
     sbnd (lift (get_acquisition nwbfile2 ''test_timeseries2'')) (\<lambda>timeseries_2.
     let nwbfile3 = new_NWBFile ''PyNWB tutorial'' ''demonstrate external files'' ''NWBE3''
                      start_time create_date in
     sbnd (lift (add_acquisition nwbfile3 timeseries_1)) (\<lambda>nwbfile3.
     sbnd (lift (add_acquisition nwbfile3 timeseries_2)) (\<lambda>nwbfile3.
     sbnd (new_NWBHDF5IO filename3 (Some ''w'') (Some manager)) (\<lambda>io3.
     sbnd (io_write io3 nwbfile3 None) (\<lambda>_.
     sbnd (io_close io3) (\<lambda>_.
     lift (Inr \<lparr>g_data = data', g_timestamps = timestamps',
                test_ts1 = test_ts1, test_ts2 = test_ts2,
                test_ts4 = test_ts4, test_ts5 = test_ts5,
                timeseries_1_data = timeseries_1_data, g_manager = manager,
                timeseries_1 = timeseries_1, timeseries_2 = timeseries_2,
                nwbfile1 = nwbfile1, nwbfile2 = nwbfile2,
                nwbfile3 = nwbfile3, nwbfile4 = nwbfile4,
                g_io = io, g_io1 = io1, g_io2 = io2, g_io3 = io3, g_io4 = io4\<rparr>)
     )))))))))))))))))))))))))))))))"

text \<open>The interpreter starts the script with no object and no handle; the files on disk
  are whatever they are.\<close>

definition initial :: "(string \<rightharpoonup> h5file) \<Rightarrow> world" where
  "initial fs =
     \<lparr>files = fs, heap = (\<lambda>_. \<lparr>shape = [0], flat = []\<rparr>), managers = (\<lambda>_. []),
      handles = [], next_addr = 0\<rparr>"

subsection \<open>Writing a container and reading it back\<close>

text \<open>
  What the script does with \<^verbatim>\<open>nwbfile1\<close> (lines 88-90 and 135-137), for any file
  name, container and record name: open for writing, write, close; open again, read, and
  get the record from the acquisition category of what was read.
\<close>

definition write_then_read :: "string \<Rightarrow> TimeSeries_obj NWBFile \<Rightarrow> string \<Rightarrow> TimeSeries_obj prog" where
  "write_then_read fname nwbfile n =
     sbnd (new_NWBHDF5IO fname (Some ''w'') None) (\<lambda>io.
     sbnd (io_write io nwbfile None) (\<lambda>_.
     sbnd (io_close io) (\<lambda>_.
     sbnd (new_NWBHDF5IO fname None None) (\<lambda>io1.
     sbnd (io_read io1) (\<lambda>nwbfile1.
     lift (get_acquisition nwbfile1 n))))))"

section \<open>Sample inputs\<close>

text \<open>A two-pixel image with three channels.\<close>

definition sample_image :: "8 word ndarray" where
  "sample_image = \<lparr>shape = [1, 2, 3], flat = [1, 2, 3, 4, 5, 6]\<rparr>"

text \<open>
  A session file as read_basics.py expects one: 32 stimulus frames of one pixel with their
  onset times \<open>0, 1, ..., 31\<close>, three units, and one trial per stimulus whose
  \<^verbatim>\<open>stim_on_time\<close> is the onset time plus \<open>shift\<close>.
\<close>

definition sample_series :: OpticalSeries where
  "sample_series =
     \<lparr>name = ''StimulusPresentation'', source = ''sample'',
      data = \<lparr>shape = [32, 1, 1, 3], flat = replicate 96 0\<rparr>, unit = ''pixels'',
      timestamps = map real [0..<32], container_source = None\<rparr>"

definition sample_session :: "real \<Rightarrow> OpticalSeries NWBFile" where
  "sample_session shift =
     \<lparr>nwb_source = ''sample'', session_description = ''sample'', nwb_identifier = ''sample'',
      session_start_time = datetime 2006 11 1 0 0 0,
      file_create_date = datetime 2006 11 1 0 0 0,
      acquisition = [], stimulus = [(''StimulusPresentation'', sample_series)],
      units = Some [[5, 7, 12], [6.5], [100]],
      trials = Some (map (\<lambda>k. \<lparr>stim_on_time = real k + shift, category_name = ''houses''\<rparr>)
                         [0..<32])\<rparr>"

text \<open>External libraries that answer every call: the archive names a URL, the URL streams
  the given file and every plot is drawn.\<close>

definition sample_lib :: "OpticalSeries NWBFile \<Rightarrow> lib" where
  "sample_lib f =
     \<lparr>get_content_url = Inr ''https://dandiarchive.s3.amazonaws.com/sample'',
      ros3_read = (\<lambda>u. Inr f),
      imshow = (\<lambda>a. Inr ()),
      eventplot = (\<lambda>u spikes. Inr ()),
      hist = (\<lambda>stacked. Inr ())\<rparr>"

section \<open>Properties\<close>



lemma foldl_append_map:
  "foldl (\<lambda>acc x. acc @ [f x]) acc0 xs = acc0 @ map f xs"
  by (induction xs arbitrary: acc0) auto

lemma trial_spikes_map:
  "trial_spikes ust stim = map (aligned_spikes ust) stim"
  by (simp add: trial_spikes_def foldl_append_map)

subsection \<open>Sequencing\<close>

lemma bnd_Inr [simp]: "bnd (Inr x) f = f x"
  by (simp add: bnd_def)

lemma bnd_Inl [simp]: "bnd (Inl e) f = Inl e"
  by (simp add: bnd_def)

lemma bnd_Inr_iff: "bnd m f = Inr y \<longleftrightarrow> (\<exists>x. m = Inr x \<and> f x = Inr y)"
  by (cases m) simp_all


subsection \<open>Reversing the last axis\<close>

lemma last_dvd_prod_list: "xs \<noteq> [] \<Longrightarrow> last xs dvd prod_list (xs::nat list)"
  by (induction xs) auto

lemma mirror_bounds:
  fixes n i m :: nat
  assumes "0 < n" "i < m * n"
  shows "(i div n) * n + (n - 1 - i mod n) < m * n"
    and "((i div n) * n + (n - 1 - i mod n)) div n = i div n"
    and "((i div n) * n + (n - 1 - i mod n)) mod n = n - 1 - i mod n"
proof -
  have r: "n - 1 - i mod n < n" using assms(1) by simp
  have "i div n < m" using assms by (simp add: less_mult_imp_div_less)
  then have "Suc (i div n) \<le> m" by simp
  then have "Suc (i div n) * n \<le> m * n" by (rule mult_le_mono1)
  with r show "(i div n) * n + (n - 1 - i mod n) < m * n" by simp
  show "((i div n) * n + (n - 1 - i mod n)) div n = i div n" using r by simp
  show "((i div n) * n + (n - 1 - i mod n)) mod n = n - 1 - i mod n" using r by simp
qed

lemma mirror_twice:
  fixes n i m :: nat
  assumes "0 < n" "i < m * n"
  shows "(((i div n) * n + (n - 1 - i mod n)) div n) * n
          + (n - 1 - ((i div n) * n + (n - 1 - i mod n)) mod n) = i"
proof -
  have "i mod n < n" using assms(1) by simp
  then have "n - 1 - (n - 1 - i mod n) = i mod n" by simp
  then show ?thesis using mirror_bounds(2,3)[OF assms] by simp
qed

lemma reverse_flat_twice:
  assumes "length xs = m * n"
  shows "map (\<lambda>i. map (\<lambda>i. xs ! ((i div n) * n + (n - 1 - i mod n))) [0..<length xs]
                   ! ((i div n) * n + (n - 1 - i mod n))) [0..<length xs] = xs"
proof (cases "n = 0")
  case True
  with assms show ?thesis by simp
next
  case False
  then have n: "0 < n" by simp
  show ?thesis
  proof (rule nth_equalityI)
    show "length (map (\<lambda>i. map (\<lambda>i. xs ! ((i div n) * n + (n - 1 - i mod n))) [0..<length xs]
                   ! ((i div n) * n + (n - 1 - i mod n))) [0..<length xs]) = length xs"
      by simp
  next
    fix i
    assume "i < length (map (\<lambda>i. map (\<lambda>i. xs ! ((i div n) * n + (n - 1 - i mod n)))
                   [0..<length xs] ! ((i div n) * n + (n - 1 - i mod n))) [0..<length xs])"
    then have i: "i < m * n" using assms by simp
    have j: "(i div n) * n + (n - 1 - i mod n) < length xs"
      using mirror_bounds(1)[OF n i] assms by simp
    show "map (\<lambda>i. map (\<lambda>i. xs ! ((i div n) * n + (n - 1 - i mod n))) [0..<length xs]
                   ! ((i div n) * n + (n - 1 - i mod n))) [0..<length xs] ! i = xs ! i"
      using i j assms mirror_twice[OF n i] by simp
  qed
qed

text \<open>
  C10. \<^verbatim>\<open>a[..., ::-1]\<close>, the reversal that turns the stored BGR images into RGB, succeeds
  on every array that has a last axis (every image has), keeps the shape, and applied to
  its own result gives back the array it started from.
\<close>

theorem reverse_last_axis_involution:
  assumes "well_formed a" and "shape a \<noteq> []"
  shows "\<exists>b. reverse_last_axis a = Inr b \<and> shape b = shape a
             \<and> reverse_last_axis b = Inr a"
proof -
  obtain m where m: "length (flat a) = m * last (shape a)"
    using assms last_dvd_prod_list[of "shape a"]
    by (auto simp: well_formed_def dvd_def mult.commute)
  obtain d ds where s: "shape a = d # ds" using assms(2) by (cases "shape a") auto
  define b where "b = \<lparr>shape = shape a,
       flat = map (\<lambda>i. flat a ! ((i div last (shape a)) * last (shape a)
                 + (last (shape a) - 1 - i mod last (shape a)))) [0..<length (flat a)]\<rparr>"
  have 1: "reverse_last_axis a = Inr b"
    by (simp add: reverse_last_axis_def s b_def Let_def)
  have 2: "shape b = shape a" by (simp add: b_def)
  have "reverse_last_axis b = Inr \<lparr>shape = shape a, flat = flat a\<rparr>"
    using reverse_flat_twice[OF m] by (simp add: reverse_last_axis_def s b_def Let_def)
  then have 3: "reverse_last_axis b = Inr a" by simp
  from 1 2 3 show ?thesis by blast
qed

theorem reverse_last_axis_involution_witness:
  "well_formed sample_image \<and> shape sample_image \<noteq> []
   \<and> (\<exists>b. reverse_last_axis sample_image = Inr b \<and> shape b = shape sample_image
           \<and> reverse_last_axis b = Inr sample_image)"
  using reverse_last_axis_involution[of sample_image]
  by (simp add: well_formed_def sample_image_def)

subsection \<open>The spike window\<close>


lemma units_loop_ok:
  assumes "\<And>u s. eventplot l u s = Inr ()" and "\<And>h. hist l h = Inr ()" and "stim \<noteq> []"
    and "list_all (\<lambda>u. u < length st) us"
  shows "units_loop l st stim us = Inr (map (\<lambda>u. trial_spikes (st ! u) stim) us)"
  using assms(4)
proof (induction us)
  case Nil
  then show ?case by simp
next
  case (Cons u us)
  have "trial_spikes (st ! u) stim \<noteq> []"
    using assms(3) by (simp add: trial_spikes_map)
  with Cons assms(1,2) show ?case
    by (simp add: list_getitem_def np_hstack_def Let_def)
qed



subsection \<open>How read_basics.py ends\<close>




lemma read_basics_to_assert:
  assumes url: "get_content_url l = Inr u"
    and streamed: "ros3_read l u = Inr f"
    and key: "map_of (stimulus f) ''StimulusPresentation'' = Some sp"
    and frames: "shape (data sp) = n # d # ds" "31 < n"
    and shown: "\<And>a. imshow l a = Inr ()"
    and drawn: "\<And>k s. eventplot l k s = Inr ()" "\<And>h. hist l h = Inr ()"
    and table: "units f = Some st" "3 \<le> length st"
    and onsets: "timestamps sp \<noteq> []"
    and rows: "trials f = Some tr" "length tr = length (timestamps sp)"
  shows "read_basics l tbl =
     (if timestamps sp = map stim_on_time tr
      then bnd (landscapes_loop l sp
                  (take 3 (map stim_on_time (filter (\<lambda>r. category_name r = ''landscapes'') tr))))
             (\<lambda>ls. bnd (getitem (data sp) frame_index) (\<lambda>frame. bnd (reverse_last_axis frame) (\<lambda>img.
                Inr (\<lparr>s3_path = u, image = img,
                     rasters = map (\<lambda>k. trial_spikes (st ! k) (timestamps sp)) [0, 1, 2],
                     landscapes = ls\<rparr>,
                    tbl @ [\<lparr>path = u, mode = Some ''r'', manager = None, is_open = True\<rparr>]))))
      else Inl AssertionError)"
proof -
  have loop: "units_loop l st (timestamps sp) [0, 1, 2]
                = Inr (map (\<lambda>k. trial_spikes (st ! k) (timestamps sp)) [0, 1, 2])"
  proof (rule units_loop_ok[OF drawn onsets])
    show "list_all (\<lambda>k. k < length st) [0, 1, 2]" using table(2) by auto
  qed
  obtain frame where fr: "getitem (data sp) frame_index = Inr frame" "shape frame = d # ds"
    using frames by (simp add: getitem_def frame_index_def)
  obtain img where im: "reverse_last_axis frame = Inr img"
    using fr(2) by (simp add: reverse_last_axis_def Let_def)
  show ?thesis
    using url streamed key shown table rows loop fr(1) im
    by (auto simp add: read_basics_def open_io_def dict_getitem_def to_dataframe_def
          list_getitem_def np_all_eq_def py_assert_def Let_def simp del: units_loop.simps)
qed


lemma read_basics_handle:
  "read_basics l tbl = Inr (out, tbl') \<Longrightarrow>
     tbl' = tbl @ [\<lparr>path = s3_path out, mode = Some ''r'', manager = None, is_open = True\<rparr>]"
  by (auto simp: read_basics_def bnd_Inr_iff open_io_def Let_def)






subsection \<open>How linking_data.py ends\<close>

lemmas script_defs =
  linking_data_def sbnd_def lift_def bnd_def new_array_def get_manager_def new_NWBHDF5IO_def
  io_close_def io_write_def io_read_def open_io_def close_io_def
  new_NWBFile_def add_acquisition_def get_acquisition_def dict_getitem_def
  store_record_def built_elsewhere_def open_record_def opened_at_def location_def
  children_def nlinks_def initial_def reshape_def

lemma np_arange_len: "length (flat (np_arange n)) = n"
  by (simp add: np_arange_def)

lemma filenames_distinct:
  "filename1 \<noteq> filename2" "filename1 \<noteq> filename3" "filename1 \<noteq> filename4"
  "filename2 \<noteq> filename3" "filename2 \<noteq> filename4" "filename3 \<noteq> filename4"
  "filename2 \<noteq> filename1" "filename3 \<noteq> filename1" "filename4 \<noteq> filename1"
  "filename3 \<noteq> filename2" "filename4 \<noteq> filename2" "filename4 \<noteq> filename3"
  by (simp_all add: filename1_def filename2_def filename3_def filename4_def)

lemma linking_data_run:
  "case linking_data (initial fs) of
     Inl e \<Rightarrow> False
   | Inr (g, w) \<Rightarrow>
       g_data g = 0 \<and> g_timestamps g = 1 \<and> g_manager g = 2
       \<and> g_io1 g = 4 \<and> g_io2 g = 5 \<and> g_io3 g = 6
       \<and> timeseries_1_data g = H5Dataset filename1 Acquisition ''test_timeseries1'' Data
       \<and> test_ts1 g = new_TimeSeries ''test_timeseries1'' ''PyNWB tutorial'' (Array 0)
                         ''SIunit'' (Array 1)
       \<and> test_ts2 g = new_TimeSeries ''test_timeseries2'' ''PyNWB tutorial'' (Array 0)
                         ''SIunit'' (Array 1)
       \<and> test_ts4 g = new_TimeSeries ''test_timeseries4'' ''PyNWB tutorial''
                         (H5Dataset filename1 Acquisition ''test_timeseries1'' Data)
                         ''SIunit'' (Array 1)
       \<and> test_ts5 g = new_TimeSeries ''test_timeseries5'' ''PyNWB tutorial''
                         (H5DataIO (H5Dataset filename1 Acquisition ''test_timeseries1'' Data) True)
                         ''SIunit'' (Array 1)
       \<and> heap w 0 = \<lparr>shape = [100, 10], flat = flat (np_arange 1000)\<rparr>
       \<and> heap w 1 = np_arange 100
       \<and> map_option acquisition (files w filename1) =
            Some [(''test_timeseries1'',
                   StoredTimeSeries ''PyNWB tutorial''
                     (Stored \<lparr>shape = [100, 10], flat = flat (np_arange 1000)\<rparr>)
                     ''SIunit'' (Stored (np_arange 100)))]
       \<and> handles w =
            [\<lparr>path = filename1, mode = Some ''w'', manager = None, is_open = False\<rparr>,
             \<lparr>path = filename2, mode = Some ''w'', manager = None, is_open = False\<rparr>,
             \<lparr>path = filename1, mode = None, manager = None, is_open = True\<rparr>,
             \<lparr>path = filename4, mode = Some ''w'', manager = None, is_open = False\<rparr>,
             \<lparr>path = filename1, mode = None, manager = Some 2, is_open = True\<rparr>,
             \<lparr>path = filename2, mode = None, manager = Some 2, is_open = True\<rparr>,
             \<lparr>path = filename3, mode = Some ''w'', manager = Some 2, is_open = False\<rparr>]
       \<and> managers w 2 = [(filename1, Acquisition, ''test_timeseries1''),
                          (filename2, Acquisition, ''test_timeseries2'')]"
  by (simp add: script_defs new_TimeSeries_def Let_def np_arange_len filenames_distinct)

subsection \<open>Handles at the end of the scripts\<close>

lemma sample_session_run:
  "\<exists>out. read_basics (sample_lib (sample_session 0)) tbl =
     Inr (out, tbl @ [\<lparr>path = ''https://dandiarchive.s3.amazonaws.com/sample'',
                        mode = Some ''r'', manager = None, is_open = True\<rparr>])"
proof -
  have "read_basics (sample_lib (sample_session 0)) tbl =
     (if timestamps sample_series = map stim_on_time (map (\<lambda>k. \<lparr>stim_on_time = real k + 0, category_name = ''houses''\<rparr>) [0..<32])
      then bnd (landscapes_loop (sample_lib (sample_session 0)) sample_series
                  (take 3 (map stim_on_time (filter (\<lambda>r. category_name r = ''landscapes'')
                      (map (\<lambda>k. \<lparr>stim_on_time = real k + 0, category_name = ''houses''\<rparr>) [0..<32])))))
             (\<lambda>ls. bnd (getitem (data sample_series) frame_index) (\<lambda>frame. bnd (reverse_last_axis frame) (\<lambda>img.
                Inr (\<lparr>s3_path = ''https://dandiarchive.s3.amazonaws.com/sample'', image = img,
                     rasters = map (\<lambda>k. trial_spikes ([[5, 7, 12], [6.5], [100]] ! k) (timestamps sample_series)) [0, 1, 2],
                     landscapes = ls\<rparr>,
                    tbl @ [\<lparr>path = ''https://dandiarchive.s3.amazonaws.com/sample'', mode = Some ''r'', manager = None, is_open = True\<rparr>]))))
      else Inl AssertionError)"
    by (rule read_basics_to_assert[where f = "sample_session 0" and n = 32 and d = 1 and ds = "[1, 3]"])
       (simp_all add: sample_lib_def sample_session_def sample_series_def del: upt_rec_numeral)
  moreover have "filter (\<lambda>r. category_name r = ''landscapes'')
                      (map (\<lambda>k. \<lparr>stim_on_time = real k + 0, category_name = ''houses''\<rparr>) [0..<32]) = []"
    by (simp add: filter_map o_def del: upt_rec_numeral)
  moreover have "\<exists>frame. getitem (data sample_series) frame_index = Inr frame \<and> shape frame = [1, 1, 3]"
    by (simp add: getitem_def sample_series_def frame_index_def)
  ultimately show ?thesis
    by (auto simp add: sample_series_def o_def reverse_last_axis_def Let_def simp del: upt_rec_numeral)
qed

text \<open>
  C2 (as amended). Every handle a script opens for writing (mode \<^verbatim>\<open>'w'\<close>) is closed
  before the script ends. The handles opened for reading are never closed: at the end of
  linking_data.py the handles of lines 135, 217 and 222 are open, and at the end of
  read_basics.py the handle of line 122 is open.
\<close>

theorem handles_left_open:
  "(case linking_data (initial fs) of
      Inl e \<Rightarrow> False
    | Inr (g, w) \<Rightarrow>
        never_closed (handles w) =
          [\<lparr>path = filename1, mode = None, manager = None, is_open = True\<rparr>,
           \<lparr>path = filename1, mode = None, manager = Some (g_manager g), is_open = True\<rparr>,
           \<lparr>path = filename2, mode = None, manager = Some (g_manager g), is_open = True\<rparr>]
        \<and> length (filter (\<lambda>h. mode h = Some ''w'') (handles w)) = 4
        \<and> filter (\<lambda>h. mode h = Some ''w'') (never_closed (handles w)) = [])
   \<and> (read_basics l tbl = Inr (out, tbl') \<longrightarrow>
        never_closed tbl' =
          never_closed tbl @ [\<lparr>path = s3_path out, mode = Some ''r'', manager = None, is_open = True\<rparr>])"
proof -
  have "never_closed tbl' =
          never_closed tbl @ [\<lparr>path = s3_path out, mode = Some ''r'', manager = None, is_open = True\<rparr>]"
    if "read_basics l tbl = Inr (out, tbl')"
    using read_basics_handle[OF that] by (simp add: never_closed_def)
  then show ?thesis
    using linking_data_run[of fs]
    by (auto simp: never_closed_def split: sum.splits)
qed

theorem handles_left_open_witness:
  "\<exists>out tbl'. read_basics (sample_lib (sample_session 0)) [] = Inr (out, tbl')
     \<and> never_closed tbl' = [\<lparr>path = ''https://dandiarchive.s3.amazonaws.com/sample'',
                              mode = Some ''r'', manager = None, is_open = True\<rparr>]"
proof -
  obtain out where run: "read_basics (sample_lib (sample_session 0)) [] =
     Inr (out, [] @ [\<lparr>path = ''https://dandiarchive.s3.amazonaws.com/sample'',
                       mode = Some ''r'', manager = None, is_open = True\<rparr>])"
    using sample_session_run[of "[]"] by blast
  have "s3_path out = ''https://dandiarchive.s3.amazonaws.com/sample''"
    using read_basics_handle[OF run] by simp
  then show ?thesis
    using run handles_left_open[of Map.empty "sample_lib (sample_session 0)" "[]" out
        "[] @ [\<lparr>path = ''https://dandiarchive.s3.amazonaws.com/sample'',
                  mode = Some ''r'', manager = None, is_open = True\<rparr>]"]
    by (simp add: never_closed_def)
qed

text \<open>The claim as stated, that no handle is left open at the end of a script, fails for
  linking_data.py.\<close>

theorem handles_left_open_counterexample:
  "case linking_data (initial Map.empty) of
     Inl e \<Rightarrow> False
   | Inr (g, w) \<Rightarrow> never_closed (handles w) \<noteq> []"
  using linking_data_run[of Map.empty]
  by (auto simp: never_closed_def split: sum.splits)

subsection \<open>Failures\<close>




subsection \<open>The records of linking_data.py\<close>

lemma np_arange_shape: "shape (np_arange n) = [n]"
  by (simp add: np_arange_def)

lemma np_arange_first: "0 < n \<Longrightarrow> flat (np_arange n) ! 0 = 0"
  by (simp add: np_arange_def)

lemma read_stored:
  assumes "fs f = Some stored"
    and "map_of (children g stored) n = Some (StoredTimeSeries src d u t)"
    and "(case fld of Data \<Rightarrow> d | Timestamps \<Rightarrow> t) = Stored arr"
  shows "read_dataset nlinks fs f g n fld = Inr arr"
proof -
  have step: "read_dataset (Suc k) fs f g n fld = Inr arr" for k
    using assms by simp
  have fuel: "nlinks = Suc 15" by (simp add: nlinks_def)
  show ?thesis unfolding fuel by (rule step)
qed

lemma linking_data_loads:
  "\<exists>g w. linking_data (initial fs) = Inr (g, w)
     \<and> map (load w \<circ> data) [test_ts1 g, test_ts2 g, test_ts4 g, test_ts5 g]
         = replicate 4 (Inr \<lparr>shape = [100, 10], flat = flat (np_arange 1000)\<rparr>)
     \<and> map (load w \<circ> timestamps) [test_ts1 g, test_ts2 g, test_ts4 g, test_ts5 g]
         = replicate 4 (Inr (np_arange 100))"
proof -
  obtain g w where run: "linking_data (initial fs) = Inr (g, w)"
    and vars: "test_ts1 g = new_TimeSeries ''test_timeseries1'' ''PyNWB tutorial'' (Array 0)
                         ''SIunit'' (Array 1)"
       "test_ts2 g = new_TimeSeries ''test_timeseries2'' ''PyNWB tutorial'' (Array 0)
                         ''SIunit'' (Array 1)"
       "test_ts4 g = new_TimeSeries ''test_timeseries4'' ''PyNWB tutorial''
                         (H5Dataset filename1 Acquisition ''test_timeseries1'' Data)
                         ''SIunit'' (Array 1)"
       "test_ts5 g = new_TimeSeries ''test_timeseries5'' ''PyNWB tutorial''
                         (H5DataIO (H5Dataset filename1 Acquisition ''test_timeseries1'' Data) True)
                         ''SIunit'' (Array 1)"
    and arrays: "heap w 0 = \<lparr>shape = [100, 10], flat = flat (np_arange 1000)\<rparr>"
       "heap w 1 = np_arange 100"
    and stored: "map_option acquisition (files w filename1) =
            Some [(''test_timeseries1'',
                   StoredTimeSeries ''PyNWB tutorial''
                     (Stored \<lparr>shape = [100, 10], flat = flat (np_arange 1000)\<rparr>)
                     ''SIunit'' (Stored (np_arange 100)))]"
    using linking_data_run[of fs] by (auto split: sum.splits)
  from stored obtain h5 where at1: "files w filename1 = Some h5"
    "acquisition h5 = [(''test_timeseries1'',
                   StoredTimeSeries ''PyNWB tutorial''
                     (Stored \<lparr>shape = [100, 10], flat = flat (np_arange 1000)\<rparr>)
                     ''SIunit'' (Stored (np_arange 100)))]"
    by auto
  have "read_dataset nlinks (files w) filename1 Acquisition ''test_timeseries1'' Data
          = Inr \<lparr>shape = [100, 10], flat = flat (np_arange 1000)\<rparr>"
    by (rule read_stored[where fs = "files w" and f = filename1 and stored = h5
             and src = "''PyNWB tutorial''" and u = "''SIunit''" and t = "Stored (np_arange 100)"])
       (simp_all add: children_def at1)
  with run vars arrays show ?thesis
    by (simp add: new_TimeSeries_def numeral_eq_Suc)
qed

text \<open>
  C9. At the end of linking_data.py each of \<^verbatim>\<open>test_ts1\<close>, \<^verbatim>\<open>test_ts2\<close>,
  \<^verbatim>\<open>test_ts4\<close> and \<^verbatim>\<open>test_ts5\<close> has data of shape \<open>(100, 10)\<close> and 100
  timestamps: the first dimension of the data is as long as the timestamps. For
  \<^verbatim>\<open>test_ts4\<close> and \<^verbatim>\<open>test_ts5\<close> the data is the dataset read back from the first
  file.
\<close>

theorem timeseries_lengths:
  "case linking_data (initial fs) of
     Inl e \<Rightarrow> False
   | Inr (g, w) \<Rightarrow>
       list_all (\<lambda>ts. bnd (load w (data ts)) (\<lambda>a. Inr (shape a)) = Inr [100, 10]
                     \<and> bnd (load w (data ts)) len = Inr 100
                     \<and> bnd (load w (timestamps ts)) (\<lambda>a. Inr (shape a)) = Inr [100]
                     \<and> bnd (load w (timestamps ts)) len = Inr 100)
         [test_ts1 g, test_ts2 g, test_ts4 g, test_ts5 g]"
proof -
  obtain g w where run: "linking_data (initial fs) = Inr (g, w)"
    and d: "map (load w \<circ> data) [test_ts1 g, test_ts2 g, test_ts4 g, test_ts5 g]
         = replicate 4 (Inr \<lparr>shape = [100, 10], flat = flat (np_arange 1000)\<rparr>)"
    and t: "map (load w \<circ> timestamps) [test_ts1 g, test_ts2 g, test_ts4 g, test_ts5 g]
         = replicate 4 (Inr (np_arange 100))"
    using linking_data_loads[of fs] by blast
  from d t show ?thesis
    by (simp add: run len_def np_arange_shape numeral_eq_Suc)
qed

text \<open>
  C7 (as amended). The objects the script constructs do share mutable objects the script
  created: \<^verbatim>\<open>test_ts1\<close> and \<^verbatim>\<open>test_ts2\<close> hold the one array \<^verbatim>\<open>data\<close>, all four
  \<^verbatim>\<open>TimeSeries\<close> hold the one array \<^verbatim>\<open>timestamps\<close>, \<^verbatim>\<open>test_ts4\<close> and
  \<^verbatim>\<open>test_ts5\<close> hold the one dataset \<^verbatim>\<open>timeseries_1_data\<close>, and the handles
  \<^verbatim>\<open>io1\<close>, \<^verbatim>\<open>io2\<close> and \<^verbatim>\<open>io3\<close> hold the one manager. The script never assigns
  into an array: at its end both arrays hold what they were created with.
\<close>

theorem shared_objects:
  "case linking_data (initial fs) of
     Inl e \<Rightarrow> False
   | Inr (g, w) \<Rightarrow>
       map data [test_ts1 g, test_ts2 g] = [Array (g_data g), Array (g_data g)]
       \<and> map timestamps [test_ts1 g, test_ts2 g, test_ts4 g, test_ts5 g]
           = replicate 4 (Array (g_timestamps g))
       \<and> map data [test_ts4 g, test_ts5 g]
           = [timeseries_1_data g, H5DataIO (timeseries_1_data g) True]
       \<and> map (\<lambda>io. manager (handles w ! io)) [g_io1 g, g_io2 g, g_io3 g]
           = replicate 3 (Some (g_manager g))
       \<and> reshape (np_arange 1000) [100, 10] = Inr (heap w (g_data g))
       \<and> heap w (g_timestamps g) = np_arange 100"
  using linking_data_run[of fs]
  by (auto split: sum.splits simp: new_TimeSeries_def reshape_def np_arange_len numeral_eq_Suc)

text \<open>The claim as stated, that no two constructed objects hold the same mutable object,
  fails: \<^verbatim>\<open>test_ts1\<close> and \<^verbatim>\<open>test_ts2\<close> are different records holding the same array,
  and an assignment into that array changes what \<^verbatim>\<open>test_ts2.data\<close> reads, from 0 to
  42.\<close>

theorem shared_objects_counterexample:
  "case linking_data (initial Map.empty) of
     Inl e \<Rightarrow> False
   | Inr (g, w) \<Rightarrow>
       name (test_ts1 g) \<noteq> name (test_ts2 g)
       \<and> data (test_ts1 g) = Array (g_data g)
       \<and> data (test_ts2 g) = Array (g_data g)
       \<and> bnd (load w (data (test_ts2 g))) (\<lambda>a. Inr (flat a ! 0)) = Inr 0
       \<and> (case array_setitem (g_data g) 0 42 w of
             Inl e \<Rightarrow> False
           | Inr (u, w') \<Rightarrow> bnd (load w' (data (test_ts2 g))) (\<lambda>a. Inr (flat a ! 0)) = Inr 42)"
proof -
  have "0 < length (flat (np_arange 1000))" by (simp add: np_arange_len)
  then show ?thesis
    using linking_data_run[of Map.empty] np_arange_first[of 1000]
    by (auto split: sum.splits simp: new_TimeSeries_def array_setitem_def)
qed

text \<open>
  C5. On a fresh \<^verbatim>\<open>NWBFile\<close>, \<^verbatim>\<open>add_acquisition(ts)\<close> succeeds; afterwards the
  acquisition category holds \<open>ts\<close> under its name, \<^verbatim>\<open>get_acquisition(ts.name)\<close> returns
  \<open>ts\<close>, and the stimulus category is empty. On any container, an
  \<^verbatim>\<open>add_acquisition\<close> that succeeds leaves the stimulus category as it was and makes
  \<open>ts\<close> what \<^verbatim>\<open>get_acquisition(ts.name)\<close> returns; it fails only on a name the
  category already holds.
\<close>

theorem add_then_get_acquisition:
  "(\<exists>c. add_acquisition (new_NWBFile src descr ident start created) ts = Inr c
        \<and> acquisition c = [(name ts, ts)]
        \<and> get_acquisition c (name ts) = Inr ts
        \<and> stimulus c = [])
   \<and> (case add_acquisition nwbfile ts of
         Inl e \<Rightarrow> e = ValueError \<and> map_of (acquisition nwbfile) (name ts) \<noteq> None
       | Inr c \<Rightarrow> get_acquisition c (name ts) = Inr ts \<and> stimulus c = stimulus nwbfile)"
  by (auto simp: add_acquisition_def new_NWBFile_def get_acquisition_def dict_getitem_def
        map_add_def split: option.splits)

text \<open>
  C1. Take any \<^verbatim>\<open>TimeSeries\<close> constructed from a name, a data array and a timestamps
  array, added to the acquisition category of a fresh \<^verbatim>\<open>NWBFile\<close>. Writing the container
  to a file, closing, opening the file again, reading it and asking the result for the
  record of that name succeeds in every state of the world, and gives a record with the
  same name whose data and timestamps read the same arrays as the ones written.
\<close>

theorem write_read_roundtrip:
  "\<exists>c ts' w'.
      add_acquisition (new_NWBFile src descr ident start created)
        (new_TimeSeries n tsrc (Array a) u (Array b)) = Inr c
      \<and> write_then_read fname c n w = Inr (ts', w')
      \<and> name ts' = n
      \<and> load w' (data ts') = Inr (heap w a)
      \<and> load w' (timestamps ts') = Inr (heap w b)
      \<and> load w (Array a) = Inr (heap w a) \<and> load w (Array b) = Inr (heap w b)"
  by (simp add: write_then_read_def sbnd_def lift_def new_NWBHDF5IO_def io_close_def
        io_write_def io_read_def open_io_def close_io_def new_NWBFile_def new_TimeSeries_def
        add_acquisition_def get_acquisition_def dict_getitem_def store_record_def
        built_elsewhere_def open_record_def opened_at_def location_def children_def
        Let_def nth_append read_stored)

end
